theory Spec2Isabelle
  imports Main
begin

section \<open>JavaScript values\<close>

text \<open>
  \<open>loadSettings\<close> handles values whose shape it does not control: the value a rejected
  promise carries (\<open>catch (e: any)\<close>), the response a client resolves with, and the body of
  that response. They are modelled by one datatype of JavaScript values: the primitives,
  arrays, and objects with their own data properties.

  A number is kept as an integer, with \<open>NaN\<close> apart: the code compares a number with
  200, 403 and 404 and tests it for truthiness, and a fraction behaves there as any other
  non-zero number.

  \<open>JBareObj\<close> is an object created without a prototype (\<open>Object.create(null)\<close>):
  it has no \<open>toString\<close>, and its conversion to a string raises a TypeError.
  \<open>JObj\<close> is an object with the usual prototype (an object literal, the result of
  \<open>JSON.parse\<close>, an \<open>Error\<close>), whose conversion to a string succeeds.
\<close>

datatype jsval =
    JUndefined
  | JNull
  | JBool bool
  | JNum int
  | JNaN
  | JStr string
  | JSymbol string
  | JArr "jsval list"
  | JObj "(string \<times> jsval) list"
  | JBareObj "(string \<times> jsval) list"

text \<open>\<open>!v\<close>: the values JavaScript takes for false in a condition.\<close>

fun falsy :: "jsval \<Rightarrow> bool" where
  "falsy JUndefined = True"
| "falsy JNull = True"
| "falsy (JBool b) = (b = False)"
| "falsy (JNum n) = (n = 0)"
| "falsy JNaN = True"
| "falsy (JStr s) = (s = [])"
| "falsy (JSymbol d) = False"
| "falsy (JArr xs) = False"
| "falsy (JObj ps) = False"
| "falsy (JBareObj ps) = False"

text \<open>The \<open>typeof\<close> operator: \<open>null\<close> and arrays are of type \<open>object\<close>.\<close>

fun typeof :: "jsval \<Rightarrow> string" where
  "typeof JUndefined = ''undefined''"
| "typeof JNull = ''object''"
| "typeof (JBool b) = ''boolean''"
| "typeof (JNum n) = ''number''"
| "typeof JNaN = ''number''"
| "typeof (JStr s) = ''string''"
| "typeof (JSymbol d) = ''symbol''"
| "typeof (JArr xs) = ''object''"
| "typeof (JObj ps) = ''object''"
| "typeof (JBareObj ps) = ''object''"

text \<open>The TypeError the runtime raises: an ordinary error object.\<close>

definition TypeError :: "string \<Rightarrow> jsval" where
  "TypeError msg = JObj [(''name'', JStr ''TypeError''), (''message'', JStr msg)]"

text \<open>
  A property read \<open>v.k\<close>. On \<open>undefined\<close> and \<open>null\<close> it raises a TypeError
  (\<open>Inl\<close>). On an object it yields the property, or \<open>undefined\<close> when the object has
  none of that name. The code reads the properties \<open>code\<close>, \<open>response\<close>,
  \<open>status\<close> and \<open>data\<close> only, which no primitive and no array has.
\<close>

fun getProp :: "jsval \<Rightarrow> string \<Rightarrow> jsval + jsval" where
  "getProp JUndefined k = Inl (TypeError ''Cannot read properties of undefined'')"
| "getProp JNull k = Inl (TypeError ''Cannot read properties of null'')"
| "getProp (JObj ps) k = Inr (case map_of ps k of None \<Rightarrow> JUndefined | Some v \<Rightarrow> v)"
| "getProp (JBareObj ps) k = Inr (case map_of ps k of None \<Rightarrow> JUndefined | Some v \<Rightarrow> v)"
| "getProp v k = Inr JUndefined"

text \<open>
  Whether the conversion to a string that a template literal applies to \<open>${v}\<close>
  succeeds. It raises a TypeError on a Symbol and on an object without a prototype; an
  array is joined from the conversions of its elements.
\<close>

fun toStringOk :: "jsval \<Rightarrow> bool" where
  "toStringOk (JSymbol d) = False"
| "toStringOk (JBareObj ps) = False"
| "toStringOk (JArr xs) = list_all toStringOk xs"
| "toStringOk v = True"

section \<open>Effects\<close>

text \<open>
  A template literal is kept as its pieces, the literal text and the substituted values:
  whether it can be evaluated is decided by \<open>toStringOk\<close>, and the text of a substituted
  value is not computed.
\<close>

datatype piece = Lit string | Sub jsval

fun pieceOk :: "piece \<Rightarrow> bool" where
  "pieceOk (Lit s) = True"
| "pieceOk (Sub v) = toStringOk v"

text \<open>The argument of \<open>client.request\<close>.\<close>

record request_opts =
  url :: string
  http_method :: string

text \<open>
  What a run does to the outside, in order: a line on the debug log, a line on the standard
  error channel, the call of \<open>getOauthClient\<close> and the call of \<open>client.request\<close>.
  \<open>AuthType\<close> and \<open>Config\<close> are declared in other modules and only passed on to
  \<open>getOauthClient\<close>: they are the type parameters \<open>'a\<close> and \<open>'c\<close>. The debug
  logger is another module's as well; logging a line that has been built does not raise.
\<close>

datatype ('a, 'c) event =
    DebugLog "piece list"
  | ConsoleError string
  | OauthClientCall 'a 'c
  | RequestCall request_opts

text \<open>
  An awaited promise settles: it is rejected with a value (\<open>Inl\<close>) or fulfilled with one
  (\<open>Inr\<close>). A rejection carries any value at all; so does a response. A client is what
  its type says, an object with a \<open>request\<close> method, and is modelled by that method.
\<close>

type_synonym client = "request_opts \<Rightarrow> jsval + jsval"

text \<open>
  A piece of the program takes the trace of events so far and gives a raised value or a
  result, with the trace extended.
\<close>

type_synonym ('a, 'c, 'x) prog = "('a, 'c) event list \<Rightarrow> (jsval + 'x) \<times> ('a, 'c) event list"

definition ret :: "'x \<Rightarrow> ('a, 'c, 'x) prog" where
  "ret x = (\<lambda>tr. (Inr x, tr))"

definition throw :: "jsval \<Rightarrow> ('a, 'c, 'x) prog" where
  "throw e = (\<lambda>tr. (Inl e, tr))"

definition bind :: "('a, 'c, 'x) prog \<Rightarrow> ('x \<Rightarrow> ('a, 'c, 'y) prog) \<Rightarrow> ('a, 'c, 'y) prog" where
  "bind m f = (\<lambda>tr. case m tr of (Inl e, tr') \<Rightarrow> (Inl e, tr') | (Inr x, tr') \<Rightarrow> f x tr')"

text \<open>\<open>try { m } catch (e) { h e }\<close> followed by \<open>k\<close> on the value of \<open>m\<close>.\<close>

definition tryCatch ::
  "('a, 'c, 'x) prog \<Rightarrow> (jsval \<Rightarrow> ('a, 'c, 'y) prog) \<Rightarrow> ('x \<Rightarrow> ('a, 'c, 'y) prog) \<Rightarrow> ('a, 'c, 'y) prog" where
  "tryCatch m h k = (\<lambda>tr. case m tr of (Inl e, tr') \<Rightarrow> h e tr' | (Inr x, tr') \<Rightarrow> k x tr')"

definition emit :: "('a, 'c) event \<Rightarrow> ('a, 'c, unit) prog" where
  "emit ev = (\<lambda>tr. (Inr (), tr @ [ev]))"

definition settled :: "jsval + 'x \<Rightarrow> ('a, 'c, 'x) prog" where
  "settled r = (\<lambda>tr. (r, tr))"

text \<open>
  \<open>debugLogger.log\<close> on a template literal: the literal is evaluated first, and raises
  a TypeError where a substituted value cannot be converted to a string; then the line is
  logged.
\<close>

definition debugLog :: "piece list \<Rightarrow> ('a, 'c, unit) prog" where
  "debugLog ps =
     (if list_all pieceOk ps then emit (DebugLog ps)
      else throw (TypeError ''Cannot convert to a string''))"

definition consoleError :: "string \<Rightarrow> ('a, 'c, unit) prog" where
  "consoleError s = emit (ConsoleError s)"

section \<open>loadSettings\<close>

text \<open>
  \<open>process.env\<close> maps a name to a string, or to \<open>undefined\<close> (\<open>None\<close>). In
  \<open>a || b\<close> the first operand is taken when it is truthy, a non-empty string here, and
  the second otherwise, whatever it is.
\<close>

definition projectId :: "(string \<Rightarrow> string option) \<Rightarrow> string option" where
  "projectId env =
     (case env ''GOOGLE_CLOUD_PROJECT'' of
        None \<Rightarrow> env ''GOOGLE_CLOUD_PROJECT_ID''
      | Some s \<Rightarrow> if s = [] then env ''GOOGLE_CLOUD_PROJECT_ID'' else Some s)"

text \<open>
  Line 58, \<open>e.code || e.response?.status\<close>: the status an error carries is its
  \<open>code\<close> when that is truthy, and otherwise the \<open>status\<close> of its \<open>response\<close>,
  \<open>undefined\<close> when it has no response. Reading \<open>e.code\<close> raises when \<open>e\<close> is
  \<open>undefined\<close> or \<open>null\<close>.
\<close>

definition errorStatus :: "jsval \<Rightarrow> jsval + jsval" where
  "errorStatus e =
     (case getProp e ''code'' of
        Inl t \<Rightarrow> Inl t
      | Inr code \<Rightarrow>
          if falsy code then
            (case getProp e ''response'' of
               Inl t \<Rightarrow> Inl t
             | Inr response \<Rightarrow>
                 if response = JUndefined \<or> response = JNull then Inr JUndefined
                 else getProp response ''status'')
          else Inr code)"

text \<open>Lines 57 to 66, the handler of the inner \<open>try\<close>.\<close>

definition requestCatch :: "jsval \<Rightarrow> ('a, 'c, jsval option) prog" where
  "requestCatch e =
     bind (settled (errorStatus e)) (\<lambda>status.
     if status = JNum 403 \<or> status = JNum 404 then
       bind (debugLog [Lit ''Cloud Settings: Skipped (Status '', Sub status,
                       Lit ''). Project/Bucket not found or access denied.'']) (\<lambda>_.
       ret None)
     else throw e)"

text \<open>Lines 68 to 85, after the request has resolved with \<open>res\<close>.\<close>

definition checkResponse :: "jsval \<Rightarrow> ('a, 'c, jsval option) prog" where
  "checkResponse res =
     bind (settled (getProp res ''status'')) (\<lambda>status.
     if status \<noteq> JNum 200 then
       bind (debugLog [Lit ''Cloud Settings: Fetch failed with status '', Sub status,
                       Lit ''; skipping'']) (\<lambda>_.
       ret None)
     else
       bind (settled (getProp res ''data'')) (\<lambda>data.
       if falsy data \<or> typeof data \<noteq> ''object'' then
         bind (consoleError
           ''Cloud Settings: Failed to parse settings.json. The file must be a valid JSON object.'') (\<lambda>_.
         ret None)
       else
         bind (debugLog [Lit ''Cloud Settings: Successfully loaded.'']) (\<lambda>_.
         ret (Some data))))"

text \<open>
  Lines 46 to 48: the bucket, the file and the URL of the download, for the project
  identifier \<open>pid\<close>.
\<close>

definition settingsUrl :: "string \<Rightarrow> string" where
  "settingsUrl pid =
     (let bucketName = pid @ ''-gemini-cli-settings'';
          fileName = ''settings.json''
      in ''https://storage.googleapis.com/storage/v1/b/'' @ bucketName @ ''/o/'' @ fileName
           @ ''?alt=media'')"

text \<open>
  The whole method. Its result is \<open>Inl e\<close> when the promise it returns is rejected with
  \<open>e\<close>, \<open>Inr None\<close> when it resolves to \<open>null\<close>, and \<open>Inr (Some d)\<close> when it
  resolves to \<open>d\<close>. \<open>!projectId\<close> holds of \<open>undefined\<close> and of the empty string.
\<close>

definition loadSettings ::
  "(string \<Rightarrow> string option) \<Rightarrow> ('a \<Rightarrow> 'c \<Rightarrow> jsval + client) \<Rightarrow> 'c \<Rightarrow> 'a
     \<Rightarrow> ('a, 'c, jsval option) prog" where
  "loadSettings env getOauthClient config authType =
     tryCatch
       (case projectId env of
          None \<Rightarrow>
            bind (debugLog [Lit ''Cloud Settings: No project ID found in environment variables; skipping.'']) (\<lambda>_.
            ret None)
        | Some pid \<Rightarrow>
            if pid = [] then
              bind (debugLog [Lit ''Cloud Settings: No project ID found in environment variables; skipping.'']) (\<lambda>_.
              ret None)
            else
              bind (debugLog [Lit ''Cloud Settings: Attempting to fetch from '',
                              Sub (JStr (settingsUrl pid))]) (\<lambda>_.
              bind (emit (OauthClientCall authType config)) (\<lambda>_.
              bind (settled (getOauthClient authType config)) (\<lambda>client.
              bind (emit (RequestCall \<lparr>url = settingsUrl pid, http_method = ''GET''\<rparr>)) (\<lambda>_.
              tryCatch (settled (client \<lparr>url = settingsUrl pid, http_method = ''GET''\<rparr>))
                requestCatch
                checkResponse)))))
       (\<lambda>e. bind (debugLog [Lit ''Cloud Settings: Error loading settings: '', Sub e]) (\<lambda>_.
             ret None))
       ret"

text \<open>The requests a trace holds, and the lines it holds on the standard error channel.\<close>

fun requestsOf :: "('a, 'c) event list \<Rightarrow> request_opts list" where
  "requestsOf [] = []"
| "requestsOf (RequestCall opts # evs) = opts # requestsOf evs"
| "requestsOf (ev # evs) = requestsOf evs"

fun consoleErrors :: "('a, 'c) event list \<Rightarrow> string list" where
  "consoleErrors [] = []"
| "consoleErrors (ConsoleError s # evs) = s # consoleErrors evs"
| "consoleErrors (ev # evs) = consoleErrors evs"

text \<open>
  The events every run with a project identifier starts with: the line on the debug log and
  the call of \<open>getOauthClient\<close>; and, once a client is there, the request.
\<close>

definition started :: "string \<Rightarrow> 'a \<Rightarrow> 'c \<Rightarrow> ('a, 'c) event list" where
  "started pid authType config =
     [DebugLog [Lit ''Cloud Settings: Attempting to fetch from '', Sub (JStr (settingsUrl pid))],
      OauthClientCall authType config]"

definition requested :: "string \<Rightarrow> 'a \<Rightarrow> 'c \<Rightarrow> ('a, 'c) event list" where
  "requested pid authType config =
     started pid authType config @ [RequestCall \<lparr>url = settingsUrl pid, http_method = ''GET''\<rparr>]"

section \<open>getInstance\<close>

text \<open>
  The class has one static field, \<open>instance\<close>, and its objects have no field. The state
  of the class is that field, \<open>undefined\<close> (\<open>None\<close>) until the first call, and the
  number of objects \<open>new CloudSettingsService()\<close> has made so far; an object is known by
  its number.
\<close>

record class_state =
  instance_field :: "nat option"
  constructed :: nat

definition newService :: "class_state \<Rightarrow> nat \<times> class_state" where
  "newService s = (constructed s, s\<lparr>constructed := Suc (constructed s)\<rparr>)"

definition getInstance :: "class_state \<Rightarrow> nat \<times> class_state" where
  "getInstance s =
     (case instance_field s of
        None \<Rightarrow> (case newService s of (r, s') \<Rightarrow> (r, s'\<lparr>instance_field := Some r\<rparr>))
      | Some r \<Rightarrow> (r, s))"

text \<open>
  The operations of the service, run one after the other on the state of the class and
  the trace. \<open>loadSettings\<close> reads and writes no field.
\<close>

datatype ('a, 'c) operation =
    GetInstance
  | LoadSettings "string \<Rightarrow> string option" "'a \<Rightarrow> 'c \<Rightarrow> jsval + client" 'c 'a

datatype outcome = Handle nat | Settled "jsval + jsval option"

fun perform ::
  "('a, 'c) operation \<Rightarrow> class_state \<times> ('a, 'c) event list
     \<Rightarrow> outcome \<times> class_state \<times> ('a, 'c) event list" where
  "perform GetInstance (s, tr) = (case getInstance s of (r, s') \<Rightarrow> (Handle r, s', tr))"
| "perform (LoadSettings env getOauthClient config authType) (s, tr) =
     (case loadSettings env getOauthClient config authType tr of (r, tr') \<Rightarrow> (Settled r, s, tr'))"

fun performAll ::
  "('a, 'c) operation list \<Rightarrow> class_state \<times> ('a, 'c) event list
     \<Rightarrow> outcome list \<times> class_state \<times> ('a, 'c) event list" where
  "performAll [] w = ([], w)"
| "performAll (op # ops) w =
     (case perform op w of (r, w') \<Rightarrow>
        (case performAll ops w' of (rs, w'') \<Rightarrow> (r # rs, w'')))"

fun handlesOf :: "outcome list \<Rightarrow> nat list" where
  "handlesOf [] = []"
| "handlesOf (Handle r # rs) = r # handlesOf rs"
| "handlesOf (Settled x # rs) = handlesOf rs"

section \<open>What a run of loadSettings does\<close>

lemmas prog_defs =
  ret_def throw_def bind_def tryCatch_def emit_def settled_def debugLog_def consoleError_def

lemma settingsUrl_eq:
  "settingsUrl pid =
     ''https://storage.googleapis.com/storage/v1/b/'' @ pid
       @ ''-gemini-cli-settings/o/settings.json?alt=media''"
  by (simp add: settingsUrl_def)

text \<open>The errors the runtime raises on a property read can be converted to a string.\<close>

lemma getProp_TypeError: "getProp v k = Inl t \<Longrightarrow> toStringOk t"
  by (cases v) (auto simp: TypeError_def)

lemma errorStatus_TypeError: "errorStatus e = Inl t \<Longrightarrow> toStringOk t"
  by (auto simp: errorStatus_def split: if_splits sum.splits dest: getProp_TypeError)

lemma requestsOf_append: "requestsOf (xs @ ys) = requestsOf xs @ requestsOf ys"
  by (induction xs rule: requestsOf.induct) simp_all

lemma consoleErrors_append: "consoleErrors (xs @ ys) = consoleErrors xs @ consoleErrors ys"
  by (induction xs rule: consoleErrors.induct) simp_all

lemma requestsOf_requested:
  "requestsOf (requested pid authType config) = [\<lparr>url = settingsUrl pid, http_method = ''GET''\<rparr>]"
  by (simp add: requested_def started_def)

lemma consoleErrors_requested: "consoleErrors (requested pid authType config) = []"
  by (simp add: requested_def started_def)

text \<open>
  With a project identifier, the run is decided by how \<open>getOauthClient\<close> and the request
  settle. First: \<open>getOauthClient\<close> is rejected with \<open>e\<close>. The outer handler logs
  \<open>e\<close> and returns null, unless \<open>e\<close> cannot be converted to a string: then the
  template literal of line 88 raises inside the handler, and nothing catches that.
\<close>

lemma loadSettings_factory_rejects:
  assumes "projectId env = Some pid" and "pid \<noteq> []"
    and "getOauthClient authType config = Inl e"
  shows "loadSettings env getOauthClient config authType tr =
    (if toStringOk e then
       (Inr None, tr @ started pid authType config
                     @ [DebugLog [Lit ''Cloud Settings: Error loading settings: '', Sub e]])
     else
       (Inl (TypeError ''Cannot convert to a string''), tr @ started pid authType config))"
  using assms by (simp add: loadSettings_def prog_defs started_def)

text \<open>Second: the request is rejected with \<open>e\<close>.\<close>

lemma loadSettings_request_rejects:
  assumes "projectId env = Some pid" and "pid \<noteq> []"
    and "getOauthClient authType config = Inr client"
    and "client \<lparr>url = settingsUrl pid, http_method = ''GET''\<rparr> = Inl e"
  shows "loadSettings env getOauthClient config authType tr =
    (case errorStatus e of
       Inl t \<Rightarrow>
         (Inr None, tr @ requested pid authType config
                       @ [DebugLog [Lit ''Cloud Settings: Error loading settings: '', Sub t]])
     | Inr status \<Rightarrow>
         if status = JNum 403 \<or> status = JNum 404 then
           (Inr None, tr @ requested pid authType config
                         @ [DebugLog [Lit ''Cloud Settings: Skipped (Status '', Sub status,
                                      Lit ''). Project/Bucket not found or access denied.'']])
         else if toStringOk e then
           (Inr None, tr @ requested pid authType config
                         @ [DebugLog [Lit ''Cloud Settings: Error loading settings: '', Sub e]])
         else
           (Inl (TypeError ''Cannot convert to a string''), tr @ requested pid authType config))"
  using assms
  by (auto simp: loadSettings_def requestCatch_def prog_defs started_def requested_def
      dest: errorStatus_TypeError split: sum.splits)

text \<open>Third: the request resolves with \<open>res\<close>.\<close>

lemma loadSettings_request_resolves:
  assumes "projectId env = Some pid" and "pid \<noteq> []"
    and "getOauthClient authType config = Inr client"
    and "client \<lparr>url = settingsUrl pid, http_method = ''GET''\<rparr> = Inr res"
  shows "loadSettings env getOauthClient config authType tr =
    (case getProp res ''status'' of
       Inl t \<Rightarrow>
         (Inr None, tr @ requested pid authType config
                       @ [DebugLog [Lit ''Cloud Settings: Error loading settings: '', Sub t]])
     | Inr status \<Rightarrow>
         if status \<noteq> JNum 200 then
           if toStringOk status then
             (Inr None, tr @ requested pid authType config
                           @ [DebugLog [Lit ''Cloud Settings: Fetch failed with status '', Sub status,
                                        Lit ''; skipping'']])
           else
             (Inr None, tr @ requested pid authType config
                           @ [DebugLog [Lit ''Cloud Settings: Error loading settings: '',
                                        Sub (TypeError ''Cannot convert to a string'')]])
         else
           (case getProp res ''data'' of
              Inl t \<Rightarrow>
                (Inr None, tr @ requested pid authType config
                              @ [DebugLog [Lit ''Cloud Settings: Error loading settings: '', Sub t]])
            | Inr data \<Rightarrow>
                if falsy data \<or> typeof data \<noteq> ''object'' then
                  (Inr None, tr @ requested pid authType config
                     @ [ConsoleError ''Cloud Settings: Failed to parse settings.json. The file must be a valid JSON object.''])
                else
                  (Inr (Some data), tr @ requested pid authType config
                     @ [DebugLog [Lit ''Cloud Settings: Successfully loaded.'']])))"
  using assms
  by (auto simp: loadSettings_def checkResponse_def prog_defs started_def requested_def TypeError_def
      dest: getProp_TypeError split: sum.splits)

section \<open>The identifier and the URL\<close>

text \<open>An environment that sets GOOGLE_CLOUD_PROJECT alone, used in the examples below.\<close>

lemma projectId_primary:
  "projectId (\<lambda>k. if k = ''GOOGLE_CLOUD_PROJECT'' then Some ''p'' else None) = Some ''p''"
  by (simp add: projectId_def)

text \<open>
  C5: when neither GOOGLE_CLOUD_PROJECT nor GOOGLE_CLOUD_PROJECT_ID holds a non-empty
  value, loadSettings resolves to null, and all it does is write the skip line to the debug
  log: getOauthClient is not called and no request is made.
\<close>

theorem loadSettings_no_project_id:
  assumes "env ''GOOGLE_CLOUD_PROJECT'' = None \<or> env ''GOOGLE_CLOUD_PROJECT'' = Some []"
    and "env ''GOOGLE_CLOUD_PROJECT_ID'' = None \<or> env ''GOOGLE_CLOUD_PROJECT_ID'' = Some []"
  shows "loadSettings env getOauthClient config authType tr =
           (Inr None,
            tr @ [DebugLog [Lit ''Cloud Settings: No project ID found in environment variables; skipping.'']])"
  using assms by (auto simp: loadSettings_def projectId_def prog_defs)

text \<open>The secondary variable set to the empty string, the primary one unset.\<close>

theorem loadSettings_no_project_id_witness:
  "loadSettings (\<lambda>k. if k = ''GOOGLE_CLOUD_PROJECT_ID'' then Some [] else None)
     (\<lambda>(a :: unit) (c :: unit). Inl JNull) () () [] =
   (Inr None,
    [DebugLog [Lit ''Cloud Settings: No project ID found in environment variables; skipping.'']])"
  using loadSettings_no_project_id
    [of "\<lambda>k. if k = ''GOOGLE_CLOUD_PROJECT_ID'' then Some [] else None"
        "\<lambda>(a :: unit) (c :: unit). Inl JNull" "()" "()" "[]"]
  by simp

text \<open>
  C9: the identifier is the first non-empty value in order. A non-empty value of
  GOOGLE_CLOUD_PROJECT is taken whatever GOOGLE_CLOUD_PROJECT_ID holds; when
  GOOGLE_CLOUD_PROJECT is unset or empty, a non-empty value of GOOGLE_CLOUD_PROJECT_ID is
  taken.
\<close>

theorem projectId_first_non_empty:
  "(env ''GOOGLE_CLOUD_PROJECT'' = Some p \<and> p \<noteq> [] \<longrightarrow> projectId env = Some p) \<and>
   ((env ''GOOGLE_CLOUD_PROJECT'' = None \<or> env ''GOOGLE_CLOUD_PROJECT'' = Some []) \<and>
      env ''GOOGLE_CLOUD_PROJECT_ID'' = Some q \<and> q \<noteq> [] \<longrightarrow> projectId env = Some q)"
  by (auto simp: projectId_def)

theorem projectId_first_non_empty_witness:
  "projectId (\<lambda>k. if k = ''GOOGLE_CLOUD_PROJECT'' then Some ''alpha''
                  else if k = ''GOOGLE_CLOUD_PROJECT_ID'' then Some ''beta'' else None) = Some ''alpha'' \<and>
   projectId (\<lambda>k. if k = ''GOOGLE_CLOUD_PROJECT'' then Some []
                  else if k = ''GOOGLE_CLOUD_PROJECT_ID'' then Some ''beta'' else None) = Some ''beta''"
  using projectId_first_non_empty
    [of "\<lambda>k. if k = ''GOOGLE_CLOUD_PROJECT'' then Some ''alpha''
             else if k = ''GOOGLE_CLOUD_PROJECT_ID'' then Some ''beta'' else None" "''alpha''" "''beta''"]
    projectId_first_non_empty
    [of "\<lambda>k. if k = ''GOOGLE_CLOUD_PROJECT'' then Some []
             else if k = ''GOOGLE_CLOUD_PROJECT_ID'' then Some ''beta'' else None" "''alpha''" "''beta''"]
  by simp

text \<open>
  C4: for every identifier \<open>pid\<close> resolved from the environment, a run that obtains a
  client makes one request, a GET of
  https://storage.googleapis.com/storage/v1/b/\<open>pid\<close>-gemini-cli-settings/o/settings.json?alt=media.
\<close>

theorem loadSettings_request_url:
  assumes "projectId env = Some pid" and "pid \<noteq> []"
    and "getOauthClient authType config = Inr client"
  shows "requestsOf (snd (loadSettings env getOauthClient config authType tr)) =
           requestsOf tr @
           [\<lparr>url = ''https://storage.googleapis.com/storage/v1/b/'' @ pid
                     @ ''-gemini-cli-settings/o/settings.json?alt=media'',
             http_method = ''GET''\<rparr>]"
proof (cases "client \<lparr>url = settingsUrl pid, http_method = ''GET''\<rparr>")
  case (Inl e)
  from assms Inl show ?thesis
    by (simp add: loadSettings_request_rejects [where pid = pid and client = client and e = e]
        requestsOf_append requestsOf_requested settingsUrl_eq split: sum.splits)
next
  case (Inr res)
  from assms Inr show ?thesis
    by (simp add: loadSettings_request_resolves [where pid = pid and client = client and res = res]
        requestsOf_append requestsOf_requested settingsUrl_eq split: sum.splits)
qed

theorem loadSettings_request_url_witness:
  "requestsOf (snd (loadSettings
      (\<lambda>k. if k = ''GOOGLE_CLOUD_PROJECT'' then Some ''p'' else None)
      (\<lambda>(a :: unit) (c :: unit). Inr (\<lambda>opts. Inr JNull)) () () [])) =
   [\<lparr>url = ''https://storage.googleapis.com/storage/v1/b/p-gemini-cli-settings/o/settings.json?alt=media'',
     http_method = ''GET''\<rparr>]"
  using loadSettings_request_url
    [of "\<lambda>k. if k = ''GOOGLE_CLOUD_PROJECT'' then Some ''p'' else None" "''p''"
        "\<lambda>(a :: unit) (c :: unit). Inr (\<lambda>opts. Inr JNull)" "()" "()" "\<lambda>opts. Inr JNull" "[]"]
  by (simp add: projectId_primary)

section \<open>Responses\<close>

text \<open>
  C6: when the request resolves with status 200 and a body that is a JSON object,
  loadSettings resolves to that body as it is, after the line of success on the debug log.
\<close>

theorem loadSettings_object_passed_through:
  assumes "projectId env = Some pid" and "pid \<noteq> []"
    and "getOauthClient authType config = Inr client"
    and "client \<lparr>url = settingsUrl pid, http_method = ''GET''\<rparr> = Inr res"
    and "getProp res ''status'' = Inr (JNum 200)"
    and "getProp res ''data'' = Inr (JObj ps)"
  shows "loadSettings env getOauthClient config authType tr =
           (Inr (Some (JObj ps)),
            tr @ requested pid authType config @ [DebugLog [Lit ''Cloud Settings: Successfully loaded.'']])"
  using assms
  by (simp add: loadSettings_request_resolves [where pid = pid and client = client and res = res])

text \<open>The body \<open>{"a": 1}\<close>.\<close>

theorem loadSettings_object_passed_through_witness:
  "loadSettings
      (\<lambda>k. if k = ''GOOGLE_CLOUD_PROJECT'' then Some ''p'' else None)
      (\<lambda>(a :: unit) (c :: unit). Inr (\<lambda>opts.
          Inr (JObj [(''status'', JNum 200), (''data'', JObj [(''a'', JNum 1)])]))) () () [] =
   (Inr (Some (JObj [(''a'', JNum 1)])),
    requested ''p'' () () @ [DebugLog [Lit ''Cloud Settings: Successfully loaded.'']])"
  using loadSettings_object_passed_through
    [of "\<lambda>k. if k = ''GOOGLE_CLOUD_PROJECT'' then Some ''p'' else None" "''p''"
        "\<lambda>(a :: unit) (c :: unit). Inr (\<lambda>opts.
            Inr (JObj [(''status'', JNum 200), (''data'', JObj [(''a'', JNum 1)])]))" "()" "()"
        "\<lambda>opts. Inr (JObj [(''status'', JNum 200), (''data'', JObj [(''a'', JNum 1)])])"
        "JObj [(''status'', JNum 200), (''data'', JObj [(''a'', JNum 1)])]"
        "[(''a'', JNum 1)]" "[]"]
  by (simp add: projectId_primary)

text \<open>
  C7: when the request resolves with a response whose status is not the number 200,
  loadSettings resolves to null and writes nothing to the standard error channel; where the
  status can be converted to a string, the run ends with the line
  \<open>Fetch failed with status ...\<close> on the debug log, not with the message of a malformed
  body. A response that is \<open>undefined\<close> or \<open>null\<close> counts: reading its status
  raises.
\<close>

theorem loadSettings_non_200:
  assumes "projectId env = Some pid" and "pid \<noteq> []"
    and "getOauthClient authType config = Inr client"
    and "client \<lparr>url = settingsUrl pid, http_method = ''GET''\<rparr> = Inr res"
    and "getProp res ''status'' \<noteq> Inr (JNum 200)"
  shows "fst (loadSettings env getOauthClient config authType tr) = Inr None \<and>
         consoleErrors (snd (loadSettings env getOauthClient config authType tr)) = consoleErrors tr \<and>
         (\<forall>status. getProp res ''status'' = Inr status \<and> toStringOk status \<longrightarrow>
            snd (loadSettings env getOauthClient config authType tr) =
              tr @ requested pid authType config
                 @ [DebugLog [Lit ''Cloud Settings: Fetch failed with status '', Sub status,
                              Lit ''; skipping'']])"
  using assms
  by (auto simp: loadSettings_request_resolves [where pid = pid and client = client and res = res]
      consoleErrors_append consoleErrors_requested split: sum.splits)

text \<open>Status 500, with a body that would fail the check of its shape.\<close>

theorem loadSettings_non_200_witness:
  "loadSettings
      (\<lambda>k. if k = ''GOOGLE_CLOUD_PROJECT'' then Some ''p'' else None)
      (\<lambda>(a :: unit) (c :: unit). Inr (\<lambda>opts.
          Inr (JObj [(''status'', JNum 500), (''data'', JStr ''not-an-object'')]))) () () [] =
   (Inr None,
    requested ''p'' () () @ [DebugLog [Lit ''Cloud Settings: Fetch failed with status '', Sub (JNum 500),
                                     Lit ''; skipping'']])"
  using loadSettings_non_200
    [of "\<lambda>k. if k = ''GOOGLE_CLOUD_PROJECT'' then Some ''p'' else None" "''p''"
        "\<lambda>(a :: unit) (c :: unit). Inr (\<lambda>opts.
            Inr (JObj [(''status'', JNum 500), (''data'', JStr ''not-an-object'')]))" "()" "()"
        "\<lambda>opts. Inr (JObj [(''status'', JNum 500), (''data'', JStr ''not-an-object'')])"
        "JObj [(''status'', JNum 500), (''data'', JStr ''not-an-object'')]" "[]"]
  by (simp add: projectId_primary prod_eq_iff)

text \<open>
  With status 200, a body that is \<open>undefined\<close>, \<open>null\<close> or a primitive (a boolean, a
  number, a string, a Symbol) makes loadSettings resolve to null, with the one message on
  the standard error channel.
\<close>

lemma loadSettings_primitive_body:
  assumes "projectId env = Some pid" and "pid \<noteq> []"
    and "getOauthClient authType config = Inr client"
    and "client \<lparr>url = settingsUrl pid, http_method = ''GET''\<rparr> = Inr res"
    and "getProp res ''status'' = Inr (JNum 200)"
    and "getProp res ''data'' = Inr data"
    and "\<forall>xs. data \<noteq> JArr xs" and "\<forall>ps. data \<noteq> JObj ps \<and> data \<noteq> JBareObj ps"
  shows "loadSettings env getOauthClient config authType tr =
           (Inr None,
            tr @ requested pid authType config
               @ [ConsoleError ''Cloud Settings: Failed to parse settings.json. The file must be a valid JSON object.''])"
proof -
  from assms(7,8) have "falsy data \<or> typeof data \<noteq> ''object''"
    by (cases data) auto
  with assms(1-6) show ?thesis
    by (auto simp: loadSettings_request_resolves [where pid = pid and client = client and res = res])
qed

text \<open>
  C2: an array is not rejected. The check of line 76 is \<open>!data || typeof data !== 'object'\<close>,
  and an array is truthy and of type \<open>object\<close>: with status 200 and the body
  \<open>[1,2,3]\<close>, loadSettings resolves to the array, logs the line of success and writes
  nothing to the standard error channel.
\<close>

theorem loadSettings_array_body_returned:
  "loadSettings
      (\<lambda>k. if k = ''GOOGLE_CLOUD_PROJECT'' then Some ''p'' else None)
      (\<lambda>(a :: unit) (c :: unit). Inr (\<lambda>opts.
          Inr (JObj [(''status'', JNum 200), (''data'', JArr [JNum 1, JNum 2, JNum 3])]))) () () [] =
   (Inr (Some (JArr [JNum 1, JNum 2, JNum 3])),
    requested ''p'' () () @ [DebugLog [Lit ''Cloud Settings: Successfully loaded.'']])"
  by (simp add: loadSettings_request_resolves
        [where pid = "''p''"
           and client = "\<lambda>opts. Inr (JObj [(''status'', JNum 200), (''data'', JArr [JNum 1, JNum 2, JNum 3])])"
           and res = "JObj [(''status'', JNum 200), (''data'', JArr [JNum 1, JNum 2, JNum 3])]"]
      projectId_primary)

section \<open>Errors\<close>

text \<open>
  When the status line 58 reads from the error is 403 or 404, loadSettings resolves to
  null after the line \<open>Skipped (Status ...)\<close> on the debug log. Line 58 reads the
  \<open>code\<close> of the error, or, when it has no truthy \<open>code\<close>, the \<open>status\<close> of its
  \<open>response\<close>.
\<close>

lemma loadSettings_skipped_403_404:
  assumes "projectId env = Some pid" and "pid \<noteq> []"
    and "getOauthClient authType config = Inr client"
    and "client \<lparr>url = settingsUrl pid, http_method = ''GET''\<rparr> = Inl e"
    and "s = 403 \<or> s = 404"
    and "getProp e ''code'' = Inr (JNum s) \<or>
         (\<exists>code response. getProp e ''code'' = Inr code \<and> falsy code \<and>
            getProp e ''response'' = Inr response \<and> getProp response ''status'' = Inr (JNum s))"
  shows "loadSettings env getOauthClient config authType tr =
           (Inr None,
            tr @ requested pid authType config
               @ [DebugLog [Lit ''Cloud Settings: Skipped (Status '', Sub (JNum s),
                            Lit ''). Project/Bucket not found or access denied.'']])"
proof -
  have "errorStatus e = Inr (JNum s)"
    using assms(5,6) by (auto simp: errorStatus_def)
  with assms show ?thesis
    by (auto simp: loadSettings_request_rejects [where pid = pid and client = client and e = e])
qed

text \<open>An error with \<open>code\<close> 403, and one with no \<open>code\<close> whose response has status 404.\<close>

lemma loadSettings_skipped_403_404_examples:
  "loadSettings
      (\<lambda>k. if k = ''GOOGLE_CLOUD_PROJECT'' then Some ''p'' else None)
      (\<lambda>(a :: unit) (c :: unit). Inr (\<lambda>opts. Inl (JObj [(''code'', JNum 403)]))) () () [] =
   (Inr None,
    requested ''p'' () () @ [DebugLog [Lit ''Cloud Settings: Skipped (Status '', Sub (JNum 403),
                                     Lit ''). Project/Bucket not found or access denied.'']]) \<and>
   loadSettings
      (\<lambda>k. if k = ''GOOGLE_CLOUD_PROJECT'' then Some ''p'' else None)
      (\<lambda>(a :: unit) (c :: unit). Inr (\<lambda>opts.
          Inl (JObj [(''message'', JStr ''Not Found''), (''response'', JObj [(''status'', JNum 404)])])))
      () () [] =
   (Inr None,
    requested ''p'' () () @ [DebugLog [Lit ''Cloud Settings: Skipped (Status '', Sub (JNum 404),
                                     Lit ''). Project/Bucket not found or access denied.'']])"
  using loadSettings_skipped_403_404
    [of "\<lambda>k. if k = ''GOOGLE_CLOUD_PROJECT'' then Some ''p'' else None" "''p''"
        "\<lambda>(a :: unit) (c :: unit). Inr (\<lambda>opts. Inl (JObj [(''code'', JNum 403)]))" "()" "()"
        "\<lambda>opts. Inl (JObj [(''code'', JNum 403)])" "JObj [(''code'', JNum 403)]" 403 "[]"]
    loadSettings_skipped_403_404
    [of "\<lambda>k. if k = ''GOOGLE_CLOUD_PROJECT'' then Some ''p'' else None" "''p''"
        "\<lambda>(a :: unit) (c :: unit). Inr (\<lambda>opts.
            Inl (JObj [(''message'', JStr ''Not Found''), (''response'', JObj [(''status'', JNum 404)])]))"
        "()" "()"
        "\<lambda>opts. Inl (JObj [(''message'', JStr ''Not Found''), (''response'', JObj [(''status'', JNum 404)])])"
        "JObj [(''message'', JStr ''Not Found''), (''response'', JObj [(''status'', JNum 404)])]" 404 "[]"]
  by (simp add: projectId_primary)

text \<open>
  An error whose \<open>code\<close> is truthy and neither 403 nor 404 is raised again by the inner
  handler, whatever the status of its response. When it can be converted to a string, the
  outer handler logs it and loadSettings resolves to null all the same.
\<close>

lemma loadSettings_request_rejects_convertible:
  assumes "projectId env = Some pid" and "pid \<noteq> []"
    and "getOauthClient authType config = Inr client"
    and "client \<lparr>url = settingsUrl pid, http_method = ''GET''\<rparr> = Inl e"
    and "toStringOk e"
  shows "fst (loadSettings env getOauthClient config authType tr) = Inr None"
  using assms
  by (simp add: loadSettings_request_rejects [where pid = pid and client = client and e = e]
      split: sum.splits)

text \<open>
  C3: an error that carries the status 404 in its response does not always make
  loadSettings resolve to null. When the request is rejected with an object without
  prototype whose \<open>code\<close> is \<open>ERR_BAD_REQUEST\<close> and whose response has the status 404,
  line 58 reads the code, the inner handler raises the error again, and the template literal
  of line 88 raises on it inside the outer handler: the promise of loadSettings is rejected
  with a TypeError.
\<close>

theorem loadSettings_nested_404_raises:
  "getProp (JBareObj [(''code'', JStr ''ERR_BAD_REQUEST''),
                      (''response'', JObj [(''status'', JNum 404)])]) ''response'' =
     Inr (JObj [(''status'', JNum 404)]) \<and>
   getProp (JObj [(''status'', JNum 404)]) ''status'' = Inr (JNum 404) \<and>
   loadSettings
      (\<lambda>k. if k = ''GOOGLE_CLOUD_PROJECT'' then Some ''p'' else None)
      (\<lambda>(a :: unit) (c :: unit). Inr (\<lambda>opts.
          Inl (JBareObj [(''code'', JStr ''ERR_BAD_REQUEST''),
                         (''response'', JObj [(''status'', JNum 404)])]))) () () [] =
   (Inl (TypeError ''Cannot convert to a string''), requested ''p'' () ())"
  by (simp add: loadSettings_request_rejects
        [where pid = "''p''"
           and client = "\<lambda>opts. Inl (JBareObj [(''code'', JStr ''ERR_BAD_REQUEST''),
                                               (''response'', JObj [(''status'', JNum 404)])])"
           and e = "JBareObj [(''code'', JStr ''ERR_BAD_REQUEST''),
                              (''response'', JObj [(''status'', JNum 404)])]"]
      projectId_primary errorStatus_def)

text \<open>
  loadSettings settles without raising whenever the values that \<open>getOauthClient\<close> and the
  request may be rejected with can be converted to a string.
\<close>

lemma loadSettings_settles:
  assumes "\<And>e. getOauthClient authType config = Inl e \<Longrightarrow> toStringOk e"
    and "\<And>client opts e.
           getOauthClient authType config = Inr client \<Longrightarrow> client opts = Inl e \<Longrightarrow> toStringOk e"
  shows "\<exists>r. fst (loadSettings env getOauthClient config authType tr) = Inr r"
proof (cases "projectId env")
  case None
  then show ?thesis by (simp add: loadSettings_def prog_defs)
next
  case (Some pid)
  show ?thesis
  proof (cases "pid = []")
    case True
    with Some show ?thesis by (simp add: loadSettings_def prog_defs)
  next
    case False
    show ?thesis
    proof (cases "getOauthClient authType config")
      case (Inl e)
      with Some False assms(1) show ?thesis
        by (simp add: loadSettings_factory_rejects [where pid = pid and e = e])
    next
      case client: (Inr client)
      show ?thesis
      proof (cases "client \<lparr>url = settingsUrl pid, http_method = ''GET''\<rparr>")
        case (Inl e)
        with Some False client assms(2) [OF client Inl] show ?thesis
          by (simp add: loadSettings_request_rejects [where pid = pid and client = client and e = e]
              split: sum.splits)
      next
        case (Inr res)
        with Some False client show ?thesis
          by (simp add: loadSettings_request_resolves [where pid = pid and client = client and res = res]
              split: sum.splits)
      qed
    qed
  qed
qed

text \<open>
  C8: when \<open>getOauthClient\<close> is rejected with a Symbol, the outer handler raises: the
  template literal of line 88 cannot convert the Symbol to a string, and the promise of
  loadSettings is rejected with that TypeError, after the call of \<open>getOauthClient\<close> and
  with no line of the handler on the debug log.
\<close>

theorem loadSettings_factory_symbol_raises:
  "loadSettings
      (\<lambda>k. if k = ''GOOGLE_CLOUD_PROJECT'' then Some ''p'' else None)
      (\<lambda>(a :: unit) (c :: unit). Inl (JSymbol ''auth'')) () () [] =
   (Inl (TypeError ''Cannot convert to a string''), started ''p'' () ())"
  by (simp add: loadSettings_factory_rejects [where pid = "''p''" and e = "JSymbol ''auth''"]
      projectId_primary)

text \<open>
  C1: when the request is rejected with an object without prototype that carries the
  code 500, the inner handler raises it again and the outer handler raises on
  it in turn: the promise of loadSettings is rejected with a TypeError.
\<close>

theorem loadSettings_request_error_raises:
  "loadSettings
      (\<lambda>k. if k = ''GOOGLE_CLOUD_PROJECT'' then Some ''p'' else None)
      (\<lambda>(a :: unit) (c :: unit). Inr (\<lambda>opts. Inl (JBareObj [(''code'', JNum 500)]))) () () [] =
   (Inl (TypeError ''Cannot convert to a string''), requested ''p'' () ())"
  by (simp add: loadSettings_request_rejects
        [where pid = "''p''" and client = "\<lambda>opts. Inl (JBareObj [(''code'', JNum 500)])"
           and e = "JBareObj [(''code'', JNum 500)]"]
      projectId_primary errorStatus_def)

section \<open>The shared instance\<close>

lemma getInstance_known: "instance_field s = Some h \<Longrightarrow> getInstance s = (h, s)"
  by (simp add: getInstance_def)

lemma getInstance_sets: "instance_field (snd (getInstance s)) = Some (fst (getInstance s))"
  by (simp add: getInstance_def newService_def split: option.splits)

text \<open>
  Once the field is set, no sequence of operations changes the state of the class, and
  every \<open>getInstance\<close> among them returns the object of the field.
\<close>

lemma performAll_known:
  "instance_field s = Some h \<Longrightarrow>
     fst (snd (performAll ops (s, tr))) = s \<and>
     handlesOf (fst (performAll ops (s, tr))) =
       replicate (length (filter (\<lambda>op. op = GetInstance) ops)) h"
proof (induction ops arbitrary: tr)
  case Nil
  then show ?case by simp
next
  case (Cons op ops)
  show ?case
  proof (cases op)
    case GetInstance
    with Cons.prems Cons.IH [OF Cons.prems, of tr] show ?thesis
      by (auto simp: getInstance_known split: prod.splits)
  next
    case (LoadSettings env getOauthClient config authType)
    obtain r tr' where run: "loadSettings env getOauthClient config authType tr = (r, tr')"
      by (cases "loadSettings env getOauthClient config authType tr")
    with LoadSettings Cons.IH [OF Cons.prems, of tr'] show ?thesis
      by (auto split: prod.splits)
  qed
qed

text \<open>
  C10: getInstance is idempotent. A call on the state a first call leaves returns the same
  object and leaves the same state; whatever operations of the service follow the first
  call, the state of the class stays the one the first call left, and each getInstance among
  them returns the object of the first call. The first call, on a class whose field is not
  set, constructs the object and stores it.
\<close>

theorem getInstance_idempotent:
  "getInstance (snd (getInstance s)) = getInstance s \<and>
   fst (snd (performAll ops (snd (getInstance s), tr))) = snd (getInstance s) \<and>
   handlesOf (fst (performAll ops (snd (getInstance s), tr))) =
     replicate (length (filter (\<lambda>op. op = GetInstance) ops)) (fst (getInstance s)) \<and>
   (instance_field s = None \<longrightarrow>
      getInstance s =
        (constructed s, s\<lparr>instance_field := Some (constructed s), constructed := Suc (constructed s)\<rparr>))"
proof -
  have known: "instance_field (snd (getInstance s)) = Some (fst (getInstance s))"
    by (rule getInstance_sets)
  have "getInstance (snd (getInstance s)) = getInstance s"
    using getInstance_known [OF known] by simp
  moreover have "instance_field s = None \<longrightarrow>
      getInstance s =
        (constructed s, s\<lparr>instance_field := Some (constructed s), constructed := Suc (constructed s)\<rparr>)"
    by (simp add: getInstance_def newService_def)
  ultimately show ?thesis
    using performAll_known [OF known, of ops tr] by simp
qed

text \<open>A fresh class: two calls of getInstance with a call of loadSettings between them.\<close>

theorem getInstance_idempotent_witness:
  "getInstance \<lparr>instance_field = None, constructed = 0\<rparr> =
     (0, \<lparr>instance_field = Some 0, constructed = 1\<rparr>) \<and>
   performAll
     [GetInstance, LoadSettings (\<lambda>k. None) (\<lambda>(a :: unit) (c :: unit). Inl JNull) () (), GetInstance]
     (\<lparr>instance_field = Some 0, constructed = 1\<rparr>, []) =
     ([Handle 0, Settled (Inr None), Handle 0],
      \<lparr>instance_field = Some 0, constructed = 1\<rparr>,
      [DebugLog [Lit ''Cloud Settings: No project ID found in environment variables; skipping.'']])"
  using getInstance_idempotent
    [of "\<lparr>instance_field = None, constructed = 0\<rparr>"
        "[GetInstance, LoadSettings (\<lambda>k. None) (\<lambda>(a :: unit) (c :: unit). Inl JNull) () (), GetInstance]"
        "[]"]
  by (simp add: getInstance_def loadSettings_def projectId_def prog_defs)

end
